theory Spec2Isabelle
  imports Main "HOL-Library.Word"
begin

section \<open>Metering pipeline: \<^verbatim>\<open>metricService.ts\<close>\<close>

subsection \<open>Data\<close>

text \<open>
  \<^verbatim>\<open>RequestDetails\<close> carries the request id and the caller's address; the log prefix
  \<^verbatim>\<open>requestDetails.formattedRequestId\<close> that the service reads is kept as a field.
\<close>

record RequestDetails =
  requestId :: string
  ipAddress :: string
  formattedRequestId :: string

text \<open>
  An error object, created by \<^verbatim>\<open>new Error(...)\<close> or raised by the runtime as a
  \<^verbatim>\<open>TypeError\<close>, with its message.
\<close>

datatype JsError = Error string | TypeError string

fun message :: "JsError \<Rightarrow> string" where
  "message (Error m) = m"
| "message (TypeError m) = m"

text \<open>
  The value a record client rejects with, bound by \<^verbatim>\<open>catch (error: any)\<close>: any
  JavaScript value can be thrown. The handler reads \<^verbatim>\<open>error.message\<close>. Reading a property
  of \<^verbatim>\<open>undefined\<close> or \<^verbatim>\<open>null\<close> raises a \<^verbatim>\<open>TypeError\<close> (worded as the Node.js runtime
  words it); an error object yields its message; any other value has no such property,
  and the template string renders the result as \<^verbatim>\<open>undefined\<close>.
\<close>

datatype Thrown = ThrownUndefined | ThrownNull | ThrownError JsError | ThrownOther

fun readMessage :: "Thrown \<Rightarrow> JsError + string" where
  "readMessage ThrownUndefined =
     Inl (TypeError ''Cannot read properties of undefined (reading 'message')'')"
| "readMessage ThrownNull =
     Inl (TypeError ''Cannot read properties of null (reading 'message')'')"
| "readMessage (ThrownError e) = Inr (message e)"
| "readMessage ThrownOther = Inr ''undefined''"

text \<open>
  The payload types of \<^verbatim>\<open>events.ts\<close> and the record metric destructured in
  \<^verbatim>\<open>captureTransactionMetrics\<close>. Amounts are tinybar counts and gas units, modelled as
  integers. Field names carry a prefix where two interfaces share a name.
\<close>

record ITransactionRecordMetric =
  gasUsed :: int
  transactionFee :: int
  txRecordChargeAmount :: int
  status :: string

record IExecuteTransactionEventPayload =
  transactionId :: string
  callerName :: string
  txConstructorName :: string
  operatorAccountId :: string
  interactingEntity :: string
  requestDetails :: RequestDetails
  originalCallerAddress :: string

record IExecuteQueryEventPayload =
  q_executionMode :: string
  q_transactionId :: string
  q_txConstructorName :: string
  q_cost :: int
  q_gasUsed :: int
  q_status :: string
  q_requestDetails :: RequestDetails
  q_originalCallerAddress :: "string option"

record IEthExecutionEventPayload =
  e_method :: string
  e_requestDetails :: RequestDetails

text \<open>
  Modelled from the spec: the constants module (\<^verbatim>\<open>lib/constants\<close>) is not among the
  files modelled here; the data model gives the execution modes as \<^verbatim>\<open>TRANSACTION\<close>, \<^verbatim>\<open>QUERY\<close> and \<^verbatim>\<open>RECORD\<close>.
\<close>

definition EXECUTION_MODE_TRANSACTION :: string where
  "EXECUTION_MODE_TRANSACTION = ''TRANSACTION''"

definition EXECUTION_MODE_QUERY :: string where
  "EXECUTION_MODE_QUERY = ''QUERY''"

definition EXECUTION_MODE_RECORD :: string where
  "EXECUTION_MODE_RECORD = ''RECORD''"

subsection \<open>The metrics registry\<close>

text \<open>
  Modelled from the spec: the metrics registry is an external collaborator of which only
  the registration contract is used. The contract taken here is the one of the metrics
  library that the service imports: the registry is a table of metrics keyed by name;
  \<^verbatim>\<open>removeSingleMetric\<close> deletes a name; creating a histogram or a counter with
  \<^verbatim>\<open>registers: [register]\<close> registers the new metric, which throws when the name is
  already taken.
\<close>

datatype MetricType = HistogramType | CounterType

record Metric =
  metricType :: MetricType
  metricName :: string
  metricHelp :: string
  labelNames :: "string list"

type_synonym Registry = "string \<Rightarrow> Metric option"

definition removeSingleMetric :: "Registry \<Rightarrow> string \<Rightarrow> Registry" where
  "removeSingleMetric register n = register(n := None)"

definition registerMetric :: "Registry \<Rightarrow> Metric \<Rightarrow> JsError + Registry" where
  "registerMetric register metric =
     (case register (metricName metric) of
        Some _ \<Rightarrow>
          Inl (Error (''A metric with the name '' @ metricName metric
                      @ '' has already been registered.''))
      | None \<Rightarrow> Inr (register(metricName metric \<mapsto> metric)))"

subsection \<open>Effects\<close>

text \<open>
  Every call the service makes on a collaborator (the two record clients, the logger, the
  hbar limit service, the two histograms and the counter) is recorded, in order, as one
  effect. A method of the service returns the list of effects it performed. The record
  clients may throw any value, inside the service's \<^verbatim>\<open>try\<close>; the calls on the logger,
  the limit service and the metrics are awaited with no handler around them and are
  taken to return.
\<close>

datatype Effect =
    SdkGetTransactionRecordMetrics string string string RequestDetails
  | MirrorGetTransactionRecordMetrics string string string RequestDetails
  | LoggerDebug string
  | LoggerWarn Thrown string
  | AddExpense int string RequestDetails
  | HistogramCostObserve string string string int
  | HistogramGasFeeObserve string string string int
  | EthExecutionsCounterInc string

text \<open>
  The service holds the collaborators whose answers it depends on (whether the logger has
  the debug level enabled, and the two record clients, each of which returns a record
  metric or throws) and the three metrics it created.
\<close>

record MetricService =
  isDebugEnabled :: bool
  sdkClient :: "string \<Rightarrow> string \<Rightarrow> string \<Rightarrow> RequestDetails \<Rightarrow> Thrown + ITransactionRecordMetric"
  mirrorNodeClient :: "string \<Rightarrow> string \<Rightarrow> string \<Rightarrow> RequestDetails \<Rightarrow> Thrown + ITransactionRecordMetric"
  consensusNodeClientHistogramCost :: Metric
  consensusNodeClientHistogramGasFee :: Metric
  ethExecutionsCounter :: Metric

subsection \<open>Rendering numbers in template strings\<close>

fun showNat :: "nat \<Rightarrow> string" where
  "showNat n =
     (if n < 10 then [''0123456789'' ! n]
      else showNat (n div 10) @ [''0123456789'' ! (n mod 10)])"

declare showNat.simps [simp del]

definition showInt :: "int \<Rightarrow> string" where
  "showInt i = (if i < 0 then ''-'' @ showNat (nat (- i)) else showNat (nat i))"

subsection \<open>Construction\<close>

text \<open>
  Each initialiser removes the metric of its name from the registry and then creates the
  metric, registered in the same registry. The registry after the call is returned next
  to the metric.
\<close>

definition initCostMetric :: "Registry \<Rightarrow> JsError + (Metric \<times> Registry)" where
  "initCostMetric register =
     (let metricHistogramCost = ''rpc_relay_consensusnode_response'';
          register1 = removeSingleMetric register metricHistogramCost;
          histogram =
            \<lparr>metricType = HistogramType,
             metricName = metricHistogramCost,
             metricHelp = ''Relay consensusnode mode type status cost histogram'',
             labelNames = [''mode'', ''type'', ''status'']\<rparr>
      in case registerMetric register1 histogram of
           Inl e \<Rightarrow> Inl e
         | Inr register2 \<Rightarrow> Inr (histogram, register2))"

definition initGasMetric :: "Registry \<Rightarrow> JsError + (Metric \<times> Registry)" where
  "initGasMetric register =
     (let metricHistogramGasFee = ''rpc_relay_consensusnode_gasfee'';
          register1 = removeSingleMetric register metricHistogramGasFee;
          histogram =
            \<lparr>metricType = HistogramType,
             metricName = metricHistogramGasFee,
             metricHelp = ''Relay consensusnode mode type status gas fee histogram'',
             labelNames = [''mode'', ''type'', ''status'']\<rparr>
      in case registerMetric register1 histogram of
           Inl e \<Rightarrow> Inl e
         | Inr register2 \<Rightarrow> Inr (histogram, register2))"

definition initEthCounter :: "Registry \<Rightarrow> JsError + (Metric \<times> Registry)" where
  "initEthCounter register =
     (let metricCounterName = ''rpc_relay_eth_executions'';
          register1 = removeSingleMetric register metricCounterName;
          counter =
            \<lparr>metricType = CounterType,
             metricName = metricCounterName,
             metricHelp = ''Relay '' @ metricCounterName @ '' function'',
             labelNames = [''method'']\<rparr>
      in case registerMetric register1 counter of
           Inl e \<Rightarrow> Inl e
         | Inr register2 \<Rightarrow> Inr (counter, register2))"

text \<open>
  The constructor, from the logger's debug switch, the two record clients and the
  registry: the service, and the registry as the three initialisers leave it. The three
  event subscriptions it installs are \<open>onEvent\<close> below.
\<close>

definition newMetricService ::
  "bool \<Rightarrow> (string \<Rightarrow> string \<Rightarrow> string \<Rightarrow> RequestDetails \<Rightarrow> Thrown + ITransactionRecordMetric)
     \<Rightarrow> (string \<Rightarrow> string \<Rightarrow> string \<Rightarrow> RequestDetails \<Rightarrow> Thrown + ITransactionRecordMetric)
     \<Rightarrow> Registry \<Rightarrow> JsError + (MetricService \<times> Registry)" where
  "newMetricService debug sdk mirror register =
     (case initCostMetric register of
        Inl e \<Rightarrow> Inl e
      | Inr (cost, register1) \<Rightarrow>
          (case initGasMetric register1 of
             Inl e \<Rightarrow> Inl e
           | Inr (gasFee, register2) \<Rightarrow>
               (case initEthCounter register2 of
                  Inl e \<Rightarrow> Inl e
                | Inr (counter, register3) \<Rightarrow>
                    Inr (\<lparr>isDebugEnabled = debug,
                          sdkClient = sdk,
                          mirrorNodeClient = mirror,
                          consensusNodeClientHistogramCost = cost,
                          consensusNodeClientHistogramGasFee = gasFee,
                          ethExecutionsCounter = counter\<rparr>,
                         register3))))"

text \<open>
  The three metrics the initialisers create, the registry after a construction, and a
  registry that already holds two of the names (one under a stale metric of another kind).
\<close>

definition costHistogram :: Metric where
  "costHistogram =
     \<lparr>metricType = HistogramType, metricName = ''rpc_relay_consensusnode_response'',
      metricHelp = ''Relay consensusnode mode type status cost histogram'',
      labelNames = [''mode'', ''type'', ''status'']\<rparr>"

definition gasFeeHistogram :: Metric where
  "gasFeeHistogram =
     \<lparr>metricType = HistogramType, metricName = ''rpc_relay_consensusnode_gasfee'',
      metricHelp = ''Relay consensusnode mode type status gas fee histogram'',
      labelNames = [''mode'', ''type'', ''status'']\<rparr>"

definition executionsCounter :: Metric where
  "executionsCounter =
     \<lparr>metricType = CounterType, metricName = ''rpc_relay_eth_executions'',
      metricHelp = ''Relay rpc_relay_eth_executions function'',
      labelNames = [''method'']\<rparr>"

definition registered :: "Registry \<Rightarrow> Registry" where
  "registered register =
     register(''rpc_relay_consensusnode_response'' \<mapsto> costHistogram,
              ''rpc_relay_consensusnode_gasfee'' \<mapsto> gasFeeHistogram,
              ''rpc_relay_eth_executions'' \<mapsto> executionsCounter)"

definition exampleRegistry :: Registry where
  "exampleRegistry =
     [''rpc_relay_consensusnode_response'' \<mapsto>
        \<lparr>metricType = CounterType, metricName = ''rpc_relay_consensusnode_response'',
         metricHelp = ''stale'', labelNames = []\<rparr>,
      ''rpc_relay_eth_executions'' \<mapsto> executionsCounter]"

subsection \<open>Methods\<close>

definition captureMetrics :: "string \<Rightarrow> string \<Rightarrow> string \<Rightarrow> int \<Rightarrow> int \<Rightarrow> Effect list" where
  "captureMetrics mode type status' cost gas =
     [HistogramCostObserve mode type status' cost,
      HistogramGasFeeObserve mode type status' gas]"

definition addExpenseAndCaptureMetrics ::
  "MetricService \<Rightarrow> IExecuteQueryEventPayload \<Rightarrow> Effect list" where
  "addExpenseAndCaptureMetrics this p =
     (if isDebugEnabled this then
        [LoggerDebug
           (formattedRequestId (q_requestDetails p)
            @ '' Capturing transaction fee charged to operator: executionMode=''
            @ q_executionMode p @ '' transactionId='' @ q_transactionId p
            @ '', txConstructorName='' @ q_txConstructorName p
            @ '', cost='' @ showInt (q_cost p) @ '' tinybars'')]
      else [])
     @ [AddExpense (q_cost p)
          (case q_originalCallerAddress p of None \<Rightarrow> '''' | Some a \<Rightarrow> a)
          (q_requestDetails p)]
     @ captureMetrics (q_executionMode p) (q_txConstructorName p) (q_status p)
         (q_cost p) (q_gasUsed p)"

text \<open>
  \<^verbatim>\<open>getTransactionRecordMetrics\<close>: the client chosen by the switch is called inside
  \<^verbatim>\<open>try\<close>. The \<^verbatim>\<open>catch\<close> block builds the warning's text from \<^verbatim>\<open>error.message\<close> and
  logs it, after which the method returns \<^verbatim>\<open>undefined\<close>; when reading the message
  raises, that error leaves the method and nothing is logged. The result is what the
  method raised or returned, and the effects it performed.
\<close>

definition getTransactionRecordMetrics ::
  "MetricService \<Rightarrow> bool \<Rightarrow> string \<Rightarrow> string \<Rightarrow> string \<Rightarrow> RequestDetails
     \<Rightarrow> (JsError + ITransactionRecordMetric option) \<times> Effect list" where
  "getTransactionRecordMetrics this defaultToConsensusNode txId txConstructor operatorId rd =
     (let (answer, call) =
        (if defaultToConsensusNode then
           (sdkClient this txId txConstructor operatorId rd,
            SdkGetTransactionRecordMetrics txId txConstructor operatorId rd)
         else
           (mirrorNodeClient this txId txConstructor operatorId rd,
            MirrorGetTransactionRecordMetrics txId txConstructor operatorId rd))
      in case answer of
           Inr m \<Rightarrow> (Inr (Some m), [call])
         | Inl error \<Rightarrow>
             (case readMessage error of
                Inl raised \<Rightarrow> (Inl raised, [call])
              | Inr msg \<Rightarrow>
                  (Inr None,
                   [call,
                    LoggerWarn error
                      (formattedRequestId rd @ '' Could not fetch transaction record: error=''
                       @ msg)])))"

text \<open>
  \<^verbatim>\<open>captureTransactionMetrics\<close> awaits the retrieval, so an error raised there leaves this
  method too.
\<close>

definition captureTransactionMetrics ::
  "MetricService \<Rightarrow> bool \<Rightarrow> IExecuteTransactionEventPayload
     \<Rightarrow> (JsError + unit) \<times> Effect list" where
  "captureTransactionMetrics this defaultToConsensusNode p =
     (case getTransactionRecordMetrics this defaultToConsensusNode
             (transactionId p) (txConstructorName p) (operatorAccountId p) (requestDetails p) of
        (Inl raised, effs) \<Rightarrow> (Inl raised, effs)
      | (Inr None, effs) \<Rightarrow> (Inr (), effs)
      | (Inr (Some m), effs) \<Rightarrow>
          (Inr (),
           effs
           @ (if transactionFee m \<noteq> 0 then
                addExpenseAndCaptureMetrics this
                  \<lparr>q_executionMode = EXECUTION_MODE_TRANSACTION,
                   q_transactionId = transactionId p,
                   q_txConstructorName = txConstructorName p,
                   q_cost = transactionFee m,
                   q_gasUsed = gasUsed m,
                   q_status = status m,
                   q_requestDetails = requestDetails p,
                   q_originalCallerAddress = Some (originalCallerAddress p)\<rparr>
              else [])
           @ (if txRecordChargeAmount m \<noteq> 0 then
                addExpenseAndCaptureMetrics this
                  \<lparr>q_executionMode = EXECUTION_MODE_RECORD,
                   q_transactionId = transactionId p,
                   q_txConstructorName = txConstructorName p,
                   q_cost = txRecordChargeAmount m,
                   q_gasUsed = 0,
                   q_status = status m,
                   q_requestDetails = requestDetails p,
                   q_originalCallerAddress = Some (originalCallerAddress p)\<rparr>
              else [])))"

text \<open>
  The three subscriptions of the constructor: the effects the service performs when an
  event of each kind is published on the event emitter. The subscription for executed
  transactions starts \<^verbatim>\<open>captureTransactionMetrics\<close> and attaches no handler to its
  promise.
\<close>

datatype ExecutionEvent =
    EXECUTE_TRANSACTION IExecuteTransactionEventPayload
  | EXECUTE_QUERY IExecuteQueryEventPayload
  | ETH_EXECUTION IEthExecutionEventPayload

fun onEvent :: "MetricService \<Rightarrow> bool \<Rightarrow> ExecutionEvent \<Rightarrow> Effect list" where
  "onEvent this defaultToConsensusNode (EXECUTE_TRANSACTION args) =
     snd (captureTransactionMetrics this defaultToConsensusNode args)"
| "onEvent this defaultToConsensusNode (EXECUTE_QUERY args) =
     addExpenseAndCaptureMetrics this args"
| "onEvent this defaultToConsensusNode (ETH_EXECUTION args) =
     [EthExecutionsCounterInc (e_method args)]"

subsection \<open>Reading the effects\<close>

fun isSdkCall :: "Effect \<Rightarrow> bool" where
  "isSdkCall (SdkGetTransactionRecordMetrics _ _ _ _) = True"
| "isSdkCall _ = False"

fun isMirrorCall :: "Effect \<Rightarrow> bool" where
  "isMirrorCall (MirrorGetTransactionRecordMetrics _ _ _ _) = True"
| "isMirrorCall _ = False"

text \<open>The effects that reach the budget enforcer or one of the two histograms.\<close>

fun isMetering :: "Effect \<Rightarrow> bool" where
  "isMetering (AddExpense _ _ _) = True"
| "isMetering (HistogramCostObserve _ _ _ _) = True"
| "isMetering (HistogramGasFeeObserve _ _ _ _) = True"
| "isMetering _ = False"

subsection \<open>The emissions as the specification words them\<close>

text \<open>
  The specification describes \<^verbatim>\<open>captureTransactionMetrics\<close> as producing up to two
  query-executed emissions from a retrieved record: one for the transaction fee and one
  for the record charge. These definitions follow that wording; they are compared with
  the method above.
\<close>

definition spec_feeEmission ::
  "IExecuteTransactionEventPayload \<Rightarrow> ITransactionRecordMetric \<Rightarrow> IExecuteQueryEventPayload" where
  "spec_feeEmission p m =
     \<lparr>q_executionMode = EXECUTION_MODE_TRANSACTION,
      q_transactionId = transactionId p,
      q_txConstructorName = txConstructorName p,
      q_cost = transactionFee m,
      q_gasUsed = gasUsed m,
      q_status = status m,
      q_requestDetails = requestDetails p,
      q_originalCallerAddress = Some (originalCallerAddress p)\<rparr>"

definition spec_recordChargeEmission ::
  "IExecuteTransactionEventPayload \<Rightarrow> ITransactionRecordMetric \<Rightarrow> IExecuteQueryEventPayload" where
  "spec_recordChargeEmission p m =
     \<lparr>q_executionMode = EXECUTION_MODE_RECORD,
      q_transactionId = transactionId p,
      q_txConstructorName = txConstructorName p,
      q_cost = txRecordChargeAmount m,
      q_gasUsed = 0,
      q_status = status m,
      q_requestDetails = requestDetails p,
      q_originalCallerAddress = Some (originalCallerAddress p)\<rparr>"

definition spec_emissions ::
  "IExecuteTransactionEventPayload \<Rightarrow> ITransactionRecordMetric \<Rightarrow> IExecuteQueryEventPayload list" where
  "spec_emissions p m =
     (if transactionFee m \<noteq> 0 then [spec_feeEmission p m] else [])
     @ (if txRecordChargeAmount m \<noteq> 0 then [spec_recordChargeEmission p m] else [])"

subsection \<open>Concrete inputs\<close>

definition exampleRequest :: RequestDetails where
  "exampleRequest =
     \<lparr>requestId = ''abc'', ipAddress = ''0.0.0.0'', formattedRequestId = ''[Request ID: abc]''\<rparr>"

definition exampleTransaction :: IExecuteTransactionEventPayload where
  "exampleTransaction =
     \<lparr>transactionId = ''0.0.2@1.5'', callerName = ''eth_sendRawTransaction'',
      txConstructorName = ''EthereumTransaction'', operatorAccountId = ''0.0.2'',
      interactingEntity = ''0.0.1022'', requestDetails = exampleRequest,
      originalCallerAddress = ''0xabc''\<rparr>"

definition exampleQuery :: "int \<Rightarrow> IExecuteQueryEventPayload" where
  "exampleQuery c =
     \<lparr>q_executionMode = EXECUTION_MODE_QUERY, q_transactionId = ''0.0.2@1.5'',
      q_txConstructorName = ''ContractCallQuery'', q_cost = c, q_gasUsed = 7,
      q_status = ''SUCCESS'', q_requestDetails = exampleRequest,
      q_originalCallerAddress = None\<rparr>"

definition exampleRecord :: "int \<Rightarrow> int \<Rightarrow> ITransactionRecordMetric" where
  "exampleRecord fee charge =
     \<lparr>gasUsed = 21000, transactionFee = fee, txRecordChargeAmount = charge,
      status = ''SUCCESS''\<rparr>"

text \<open>
  A service whose consensus client fails with a timeout and whose mirror client answers
  with the given record.
\<close>

definition exampleService :: "ITransactionRecordMetric \<Rightarrow> MetricService" where
  "exampleService m =
     \<lparr>isDebugEnabled = False,
      sdkClient = (\<lambda>_ _ _ _. Inl (ThrownError (Error ''timeout''))),
      mirrorNodeClient = (\<lambda>_ _ _ _. Inr m),
      consensusNodeClientHistogramCost =
        \<lparr>metricType = HistogramType, metricName = ''rpc_relay_consensusnode_response'',
         metricHelp = ''Relay consensusnode mode type status cost histogram'',
         labelNames = [''mode'', ''type'', ''status'']\<rparr>,
      consensusNodeClientHistogramGasFee =
        \<lparr>metricType = HistogramType, metricName = ''rpc_relay_consensusnode_gasfee'',
         metricHelp = ''Relay consensusnode mode type status gas fee histogram'',
         labelNames = [''mode'', ''type'', ''status'']\<rparr>,
      ethExecutionsCounter =
        \<lparr>metricType = CounterType, metricName = ''rpc_relay_eth_executions'',
         metricHelp = ''Relay rpc_relay_eth_executions function'',
         labelNames = [''method'']\<rparr>\<rparr>"

section \<open>Configuration service: \<^verbatim>\<open>config-service/src/services/index.ts\<close>\<close>

text \<open>
  The values a configuration entry can hold after type casting, with JavaScript's
  truthiness (\<^verbatim>\<open>if (v)\<close>, \<^verbatim>\<open>!v\<close>) and its loose comparison with \<^verbatim>\<open>undefined\<close>
  (\<^verbatim>\<open>v == undefined\<close> holds for \<^verbatim>\<open>undefined\<close> and \<^verbatim>\<open>null\<close> only).
\<close>

datatype JsValue = JsUndefined | JsNull | JsBoolean bool | JsNumber int | JsString string

fun truthy :: "JsValue \<Rightarrow> bool" where
  "truthy JsUndefined = False"
| "truthy JsNull = False"
| "truthy (JsBoolean b) = b"
| "truthy (JsNumber n) = (n \<noteq> 0)"
| "truthy (JsString s) = (s \<noteq> '''')"

fun looselyUndefined :: "JsValue \<Rightarrow> bool" where
  "looselyUndefined JsUndefined = True"
| "looselyUndefined JsNull = True"
| "looselyUndefined _ = False"

text \<open>
  \<^verbatim>\<open>GlobalConfig.ENTRIES\<close> is declared in another module, so the table is a
  parameter: for each key, possibly an entry with its default value and whether it is
  required. \<^verbatim>\<open>envs\<close> is the service's copy of the environment, \<^verbatim>\<open>undefined\<close> at a key it
  does not hold. \<^verbatim>\<open>numberToString16\<close> stands for \<^verbatim>\<open>Number(value).toString(16)\<close>, which
  only the chain id goes through.
\<close>

record ConfigEntry =
  defaultValue :: JsValue
  required :: bool

record ConfigService =
  ENTRIES :: "string \<Rightarrow> ConfigEntry option"
  envs :: "string \<Rightarrow> JsValue"
  numberToString16 :: "JsValue \<Rightarrow> string"

text \<open>The messages the module's logger receives, in order.\<close>

datatype LogLine = LoggerInfo string | LoggerWarning string

text \<open>
  The first statement of \<^verbatim>\<open>get\<close>: the environment's value, or the entry's default when
  the environment has none.
\<close>

definition lookupValue :: "ConfigService \<Rightarrow> string \<Rightarrow> JsValue" where
  "lookupValue this name' =
     (if looselyUndefined (envs this name') then
        (case ENTRIES this name' of None \<Rightarrow> JsUndefined | Some configEntry \<Rightarrow> defaultValue configEntry)
      else envs this name')"

definition get :: "ConfigService \<Rightarrow> string \<Rightarrow> JsError + JsValue" where
  "get this name' =
     (let value' = lookupValue this name' in
      if looselyUndefined value'
         \<and> (case ENTRIES this name' of None \<Rightarrow> False | Some configEntry \<Rightarrow> required configEntry)
      then Inl (Error (''Configuration error: '' @ name'
                       @ '' is a mandatory configuration for relay operation.''))
      else if name' = ''CHAIN_ID'' \<and> value' \<noteq> JsUndefined
      then Inr (JsString (''0x'' @ numberToString16 this value'))
      else Inr value')"

text \<open>
  The two \<^verbatim>\<open>forEach\<close> loops of \<^verbatim>\<open>validateReadOnlyMode\<close>. Each returns what the loop
  threw, if anything, and the lines logged until then.
\<close>

fun forEachWarnIfSet :: "ConfigService \<Rightarrow> string list \<Rightarrow> (JsError + unit) \<times> LogLine list" where
  "forEachWarnIfSet this [] = (Inr (), [])"
| "forEachWarnIfSet this (varName # rest) =
     (case get this varName of
        Inl e \<Rightarrow> (Inl e, [])
      | Inr v \<Rightarrow>
          (let line =
             (if truthy v then
                [LoggerWarning
                   (''Relay is in READ_ONLY mode, but '' @ varName
                    @ '' is set. The Relay will not be able to send transactions.'')]
              else [])
           in case forEachWarnIfSet this rest of (r, logged) \<Rightarrow> (r, line @ logged)))"

fun forEachRequire :: "ConfigService \<Rightarrow> string list \<Rightarrow> (JsError + unit) \<times> LogLine list" where
  "forEachRequire this [] = (Inr (), [])"
| "forEachRequire this (varName # rest) =
     (case get this varName of
        Inl e \<Rightarrow> (Inl e, [])
      | Inr v \<Rightarrow>
          if \<not> truthy v then
            (Inl (Error (''Configuration error: '' @ varName
                         @ '' is mandatory for Relay operations in Read-Write mode.'')), [])
          else forEachRequire this rest)"

definition validateReadOnlyMode :: "ConfigService \<Rightarrow> (JsError + unit) \<times> LogLine list" where
  "validateReadOnlyMode this =
     (let vars = [''OPERATOR_ID_MAIN'', ''OPERATOR_KEY_MAIN''] in
      case get this ''READ_ONLY'' of
        Inl e \<Rightarrow> (Inl e, [])
      | Inr readOnly \<Rightarrow>
          if truthy readOnly then
            (case forEachWarnIfSet this vars of
               (r, logged) \<Rightarrow>
                 (r, LoggerInfo ''Relay is in READ_ONLY mode. It will not send transactions.''
                     # logged))
          else forEachRequire this vars)"

text \<open>The three keys read by the validation are not marked as required in the table.\<close>

definition operatorKeysOptional :: "ConfigService \<Rightarrow> bool" where
  "operatorKeysOptional this =
     list_all (\<lambda>k. case ENTRIES this k of None \<Rightarrow> True | Some configEntry \<Rightarrow> \<not> required configEntry)
       [''READ_ONLY'', ''OPERATOR_ID_MAIN'', ''OPERATOR_KEY_MAIN'']"

text \<open>
  A table and environments for concrete runs: the read-only switch defaults to false and
  the operator credentials have no default.
\<close>

definition exampleEntries :: "string \<Rightarrow> ConfigEntry option" where
  "exampleEntries k =
     (if k = ''READ_ONLY'' then Some \<lparr>defaultValue = JsBoolean False, required = False\<rparr>
      else if k = ''OPERATOR_ID_MAIN'' \<or> k = ''OPERATOR_KEY_MAIN''
      then Some \<lparr>defaultValue = JsNull, required = False\<rparr>
      else None)"

definition exampleConfig :: "JsValue \<Rightarrow> JsValue \<Rightarrow> JsValue \<Rightarrow> ConfigService" where
  "exampleConfig readOnly operatorId operatorKey =
     \<lparr>ENTRIES = exampleEntries,
      envs = (\<lambda>k. if k = ''READ_ONLY'' then readOnly
                   else if k = ''OPERATOR_ID_MAIN'' then operatorId
                   else if k = ''OPERATOR_KEY_MAIN'' then operatorKey
                   else JsUndefined),
      numberToString16 = (\<lambda>_. ''12a'')\<rparr>"

section \<open>Storage queries: \<^verbatim>\<open>getStorageAt\<close>\<close>

text \<open>
  Modelled from the spec: the implementation of \<^verbatim>\<open>getStorageAt\<close> and of the block
  resolver is not among the files modelled here; only its test file
  \<^verbatim>\<open>eth_getStorageAt.spec.ts\<close> is. The definitions of this section follow the data model,
  the component design of the block resolver and of the storage query engine, and the
  mirror endpoints listed under the external interfaces. The optional caching of results
  is left out. The mirror is the table of its replies, as the test file's mock adapter
  is: a block lookup answers with a block descriptor or with a null body, a state query
  with a 404 or with a list of entries.
\<close>

datatype BlockTag = latest | pending | earliest | safe | finalized

datatype BlockSpecifier = BlockNumber "64 word" | BlockHash string | BlockTagged BlockTag

record BlockDescriptor =
  blockNumber :: "64 word"
  blockHash :: string
  timestampFrom :: string
  timestampTo :: string

datatype ResolvedBlock = Unbounded | Resolved BlockDescriptor

datatype JsonRpcError = RESOURCE_NOT_FOUND

record ContractStateEntry =
  entrySlot :: string
  entryValue :: string

datatype StateResponse = NotFound404 | Ok200 "ContractStateEntry list"

record MirrorNode =
  getBlock :: "string \<Rightarrow> BlockDescriptor option"
  getContractState :: "string \<Rightarrow> StateResponse"

text \<open>Modelled from the spec: the canonical 32-byte all-zero hex string.\<close>

definition ZERO_HEX_32_BYTE :: string where
  "ZERO_HEX_32_BYTE = ''0x'' @ replicate 64 (CHR ''0'')"

text \<open>
  Modelled from the spec: a numeric or hash specifier is looked up once by that identity
  (\<^verbatim>\<open>blocks/{number|hash}\<close>), \<^verbatim>\<open>earliest\<close> resolves to the lowest-numbered block, and the
  other named tags need no lookup.
\<close>

fun blockLookupKey :: "BlockSpecifier \<Rightarrow> string option" where
  "blockLookupKey (BlockNumber n) = Some (showNat (unat n))"
| "blockLookupKey (BlockHash h) = Some h"
| "blockLookupKey (BlockTagged earliest) = Some (showNat 0)"
| "blockLookupKey (BlockTagged _) = None"

text \<open>
  Modelled from the spec: \<^verbatim>\<open>resolve(specifier, requestDetails)\<close> yields a resolved block
  or fails with \<^verbatim>\<open>RESOURCE_NOT_FOUND\<close> when the lookup's body is null or empty. The second
  component lists the requests sent to the mirror.
\<close>

definition resolve ::
  "MirrorNode \<Rightarrow> BlockSpecifier \<Rightarrow> RequestDetails \<Rightarrow> (JsonRpcError + ResolvedBlock) \<times> string list" where
  "resolve mirror specifier rd =
     (case blockLookupKey specifier of
        None \<Rightarrow> (Inr Unbounded, [])
      | Some key \<Rightarrow>
          (case getBlock mirror (''blocks/'' @ key) of
             None \<Rightarrow> (Inl RESOURCE_NOT_FOUND, [''blocks/'' @ key])
           | Some block \<Rightarrow> (Inr (Resolved block), [''blocks/'' @ key])))"

text \<open>
  Modelled from the spec: the state query
  \<^verbatim>\<open>contracts/{address}/state?[timestamp=<to>&]slot=<as-supplied>&limit=100&order=desc\<close>,
  with the timestamp filter only for a resolution that is not unbounded.
\<close>

definition stateQuery :: "string \<Rightarrow> string \<Rightarrow> ResolvedBlock \<Rightarrow> string" where
  "stateQuery address slot resolved =
     ''contracts/'' @ address @ ''/state?''
     @ (case resolved of
          Unbounded \<Rightarrow> ''''
        | Resolved block \<Rightarrow> ''timestamp='' @ timestampTo block @ ''&'')
     @ ''slot='' @ slot @ ''&limit=100&order=desc''"

text \<open>
  Modelled from the spec:
  \<^verbatim>\<open>getStorageAt(address, slot, blockSpecifier, requestDetails)\<close>. The block is resolved
  first and a failure is passed on without a state query; otherwise the state query is
  sent and its reply reduced to one value. The second component lists the requests sent
  to the mirror, in order.
\<close>

definition getStorageAt ::
  "MirrorNode \<Rightarrow> string \<Rightarrow> string \<Rightarrow> BlockSpecifier \<Rightarrow> RequestDetails
     \<Rightarrow> (JsonRpcError + string) \<times> string list" where
  "getStorageAt mirror address slot blockSpecifier rd =
     (case resolve mirror blockSpecifier rd of
        (Inl failure, sent) \<Rightarrow> (Inl failure, sent)
      | (Inr resolved, sent) \<Rightarrow>
          (case getContractState mirror (stateQuery address slot resolved) of
             NotFound404 \<Rightarrow> (Inr ZERO_HEX_32_BYTE, sent @ [stateQuery address slot resolved])
           | Ok200 [] \<Rightarrow> (Inr ZERO_HEX_32_BYTE, sent @ [stateQuery address slot resolved])
           | Ok200 (entry # _) \<Rightarrow>
               (Inr (entryValue entry), sent @ [stateQuery address slot resolved])))"

text \<open>
  The replies mocked by the test file: block 3 is known, with the upper timestamp used in
  the state queries; every state query finds one entry, of slot \<^verbatim>\<open>0x101\<close>.
\<close>

definition exampleBlock :: BlockDescriptor where
  "exampleBlock =
     \<lparr>blockNumber = 3, blockHash = ''0x3c08bbbee74d287b1dcd3f0ca6d1d2cb92c90883c4acf9747de9f3f3162ad25b'',
      timestampFrom = ''1651560386.060890949'', timestampTo = ''1651560389.060890949''\<rparr>"

definition exampleEntry :: ContractStateEntry where
  "exampleEntry =
     \<lparr>entrySlot = ''0x0000000000000000000000000000000000000000000000000000000000000101'',
      entryValue = ''0x0000000000000000000000000000000000000000000000000000000000000003''\<rparr>"

definition exampleMirror :: "BlockDescriptor option \<Rightarrow> StateResponse \<Rightarrow> MirrorNode" where
  "exampleMirror block reply =
     \<lparr>getBlock = (\<lambda>url. if url = ''blocks/3'' then block else None),
      getContractState = (\<lambda>_. reply)\<rparr>"

section \<open>Properties of the metering pipeline\<close>

text \<open>
  C8. For every query-executed payload, \<^verbatim>\<open>addExpenseAndCaptureMetrics\<close> calls the limit
  service's \<^verbatim>\<open>addExpense\<close> once, with the cost and with the original caller address (the
  empty string when the address is absent), and after that call observes the cost once in
  the cost histogram and the gas used once in the gas-fee histogram, both under the labels
  (executionMode, txConstructorName, status). Apart from an optional debug line written
  before the expense call, nothing else happens.
\<close>

theorem addExpenseAndCaptureMetrics_effects:
  "\<exists>dbg. addExpenseAndCaptureMetrics this p =
          dbg @ [AddExpense (q_cost p) (case_option '''' id (q_originalCallerAddress p))
                   (q_requestDetails p),
                 HistogramCostObserve (q_executionMode p) (q_txConstructorName p) (q_status p)
                   (q_cost p),
                 HistogramGasFeeObserve (q_executionMode p) (q_txConstructorName p) (q_status p)
                   (q_gasUsed p)]
        \<and> (dbg = [] \<or> (\<exists>s. dbg = [LoggerDebug s]))"
  by (cases "q_originalCallerAddress p")
     (simp_all add: addExpenseAndCaptureMetrics_def captureMetrics_def)

theorem addExpenseAndCaptureMetrics_effects_witness:
  "addExpenseAndCaptureMetrics
     ((exampleService (exampleRecord 0 0))\<lparr>isDebugEnabled := True\<rparr>) (exampleQuery 42) =
     [LoggerDebug
        ''[Request ID: abc] Capturing transaction fee charged to operator: executionMode=QUERY transactionId=0.0.2@1.5, txConstructorName=ContractCallQuery, cost=42 tinybars'',
      AddExpense 42 '''' exampleRequest,
      HistogramCostObserve ''QUERY'' ''ContractCallQuery'' ''SUCCESS'' 42,
      HistogramGasFeeObserve ''QUERY'' ''ContractCallQuery'' ''SUCCESS'' 7]"
  using addExpenseAndCaptureMetrics_effects
          [of "(exampleService (exampleRecord 0 0))\<lparr>isDebugEnabled := True\<rparr>" "exampleQuery 42"]
  by (simp add: addExpenseAndCaptureMetrics_def captureMetrics_def exampleService_def
        exampleQuery_def exampleRequest_def EXECUTION_MODE_QUERY_def showInt_def
        showNat.simps)

subsection \<open>Helper facts\<close>

lemma retrieval_cases:
  "getTransactionRecordMetrics this d a b c rd =
     (case (if d then sdkClient this a b c rd else mirrorNodeClient this a b c rd) of
        Inr m \<Rightarrow>
          (Inr (Some m),
           [if d then SdkGetTransactionRecordMetrics a b c rd
            else MirrorGetTransactionRecordMetrics a b c rd])
      | Inl error \<Rightarrow>
          (case readMessage error of
             Inl raised \<Rightarrow>
               (Inl raised,
                [if d then SdkGetTransactionRecordMetrics a b c rd
                 else MirrorGetTransactionRecordMetrics a b c rd])
           | Inr msg \<Rightarrow>
               (Inr None,
                [if d then SdkGetTransactionRecordMetrics a b c rd
                 else MirrorGetTransactionRecordMetrics a b c rd,
                 LoggerWarn error
                   (formattedRequestId rd @ '' Could not fetch transaction record: error=''
                    @ msg)])))"
  by (cases d) (simp_all add: getTransactionRecordMetrics_def)

lemma isMetering_retrieval:
  "filter isMetering (snd (getTransactionRecordMetrics this d a b c rd)) = []"
  by (cases d) (simp_all add: retrieval_cases split: sum.splits)

lemma capture_raises:
  "getTransactionRecordMetrics this d (transactionId p) (txConstructorName p)
       (operatorAccountId p) (requestDetails p) = (Inl raised, effs)
   \<Longrightarrow> captureTransactionMetrics this d p = (Inl raised, effs)"
  by (simp add: captureTransactionMetrics_def)

lemma capture_absent:
  "getTransactionRecordMetrics this d (transactionId p) (txConstructorName p)
       (operatorAccountId p) (requestDetails p) = (Inr None, effs)
   \<Longrightarrow> captureTransactionMetrics this d p = (Inr (), effs)"
  by (simp add: captureTransactionMetrics_def)

lemma capture_present:
  "getTransactionRecordMetrics this d (transactionId p) (txConstructorName p)
       (operatorAccountId p) (requestDetails p) = (Inr (Some m), effs)
   \<Longrightarrow> captureTransactionMetrics this d p =
         (Inr (),
          effs @ concat (map (addExpenseAndCaptureMetrics this) (spec_emissions p m)))"
  by (simp add: captureTransactionMetrics_def spec_emissions_def spec_feeEmission_def
        spec_recordChargeEmission_def)

lemma spec_emissions_nonzero: "e \<in> set (spec_emissions p m) \<Longrightarrow> q_cost e \<noteq> 0"
  by (auto simp: spec_emissions_def spec_feeEmission_def spec_recordChargeEmission_def
        split: if_splits)

lemma modes_differ: "EXECUTION_MODE_TRANSACTION \<noteq> EXECUTION_MODE_RECORD"
  by (simp add: EXECUTION_MODE_TRANSACTION_def EXECUTION_MODE_RECORD_def)


subsection \<open>Claims\<close>

text \<open>
  C7. Every call of \<^verbatim>\<open>getTransactionRecordMetrics\<close> invokes exactly one of the two record
  clients: the consensus (SDK) client when the configuration switch is true, the mirror
  client when it is false. This holds whatever the chosen client answers, so a failure of
  the chosen client is never followed by a call of the other one.
\<close>

theorem getTransactionRecordMetrics_one_strategy:
  "filter isSdkCall (snd (getTransactionRecordMetrics this d txId ctor opId rd)) =
     (if d then [SdkGetTransactionRecordMetrics txId ctor opId rd] else [])
   \<and> filter isMirrorCall (snd (getTransactionRecordMetrics this d txId ctor opId rd)) =
     (if d then [] else [MirrorGetTransactionRecordMetrics txId ctor opId rd])"
  by (cases d) (simp_all add: retrieval_cases split: sum.splits)

theorem getTransactionRecordMetrics_one_strategy_witness:
  "snd (getTransactionRecordMetrics (exampleService (exampleRecord 5 3)) True
          ''0.0.2@1.5'' ''EthereumTransaction'' ''0.0.2'' exampleRequest) =
     [SdkGetTransactionRecordMetrics ''0.0.2@1.5'' ''EthereumTransaction'' ''0.0.2''
        exampleRequest,
      LoggerWarn (ThrownError (Error ''timeout''))
        ''[Request ID: abc] Could not fetch transaction record: error=timeout'']
   \<and> snd (getTransactionRecordMetrics (exampleService (exampleRecord 5 3)) False
          ''0.0.2@1.5'' ''EthereumTransaction'' ''0.0.2'' exampleRequest) =
     [MirrorGetTransactionRecordMetrics ''0.0.2@1.5'' ''EthereumTransaction'' ''0.0.2''
        exampleRequest]"
  using getTransactionRecordMetrics_one_strategy
          [of "exampleService (exampleRecord 5 3)" True "''0.0.2@1.5''"
              "''EthereumTransaction''" "''0.0.2''" exampleRequest]
  by (simp add: retrieval_cases exampleService_def exampleRequest_def)




text \<open>
  C3. When a record metric is retrieved, \<^verbatim>\<open>captureTransactionMetrics\<close> completes and
  hands to \<^verbatim>\<open>addExpenseAndCaptureMetrics\<close> exactly the emissions of the specification, in
  order: the emission of mode TRANSACTION, with the transaction fee as cost and the
  retrieved gas used, is among them if and only if the fee is not zero; the emission of
  mode RECORD, with the record charge as cost and gas used 0, is among them if and only if
  the charge is not zero; and there is no other emission.
\<close>

theorem captureTransactionMetrics_two_components:
  assumes "getTransactionRecordMetrics this d (transactionId p) (txConstructorName p)
             (operatorAccountId p) (requestDetails p) = (Inr (Some m), effs)"
  shows "captureTransactionMetrics this d p =
           (Inr (),
            effs @ concat (map (addExpenseAndCaptureMetrics this) (spec_emissions p m)))
         \<and> (spec_feeEmission p m \<in> set (spec_emissions p m)) = (transactionFee m \<noteq> 0)
         \<and> (spec_recordChargeEmission p m \<in> set (spec_emissions p m))
             = (txRecordChargeAmount m \<noteq> 0)
         \<and> length (spec_emissions p m) =
             (if transactionFee m \<noteq> 0 then 1 else 0)
             + (if txRecordChargeAmount m \<noteq> 0 then 1 else 0)
         \<and> set (spec_emissions p m) \<subseteq> {spec_feeEmission p m, spec_recordChargeEmission p m}
         \<and> q_executionMode (spec_feeEmission p m) = EXECUTION_MODE_TRANSACTION
         \<and> q_cost (spec_feeEmission p m) = transactionFee m
         \<and> q_gasUsed (spec_feeEmission p m) = gasUsed m
         \<and> q_executionMode (spec_recordChargeEmission p m) = EXECUTION_MODE_RECORD
         \<and> q_cost (spec_recordChargeEmission p m) = txRecordChargeAmount m
         \<and> q_gasUsed (spec_recordChargeEmission p m) = 0"
proof -
  have neq: "spec_feeEmission p m \<noteq> spec_recordChargeEmission p m"
    using modes_differ by (auto simp: spec_feeEmission_def spec_recordChargeEmission_def)
  have "(spec_feeEmission p m \<in> set (spec_emissions p m)) = (transactionFee m \<noteq> 0)"
    using neq by (auto simp: spec_emissions_def)
  moreover have "(spec_recordChargeEmission p m \<in> set (spec_emissions p m))
                   = (txRecordChargeAmount m \<noteq> 0)"
    using neq by (auto simp: spec_emissions_def)
  moreover have "length (spec_emissions p m) =
             (if transactionFee m \<noteq> 0 then 1 else 0)
             + (if txRecordChargeAmount m \<noteq> 0 then 1 else 0)"
    by (simp add: spec_emissions_def)
  moreover have "set (spec_emissions p m)
                   \<subseteq> {spec_feeEmission p m, spec_recordChargeEmission p m}"
    by (auto simp: spec_emissions_def split: if_splits)
  moreover have "q_executionMode (spec_feeEmission p m) = EXECUTION_MODE_TRANSACTION"
    "q_cost (spec_feeEmission p m) = transactionFee m"
    "q_gasUsed (spec_feeEmission p m) = gasUsed m"
    by (simp_all add: spec_feeEmission_def)
  moreover have "q_executionMode (spec_recordChargeEmission p m) = EXECUTION_MODE_RECORD"
    "q_cost (spec_recordChargeEmission p m) = txRecordChargeAmount m"
    "q_gasUsed (spec_recordChargeEmission p m) = 0"
    by (simp_all add: spec_recordChargeEmission_def)
  ultimately show ?thesis
    using capture_present [OF assms] by simp
qed

theorem captureTransactionMetrics_two_components_witness:
  "captureTransactionMetrics (exampleService (exampleRecord 5 3)) False exampleTransaction =
     (Inr (),
      [MirrorGetTransactionRecordMetrics ''0.0.2@1.5'' ''EthereumTransaction'' ''0.0.2''
         exampleRequest,
       AddExpense 5 ''0xabc'' exampleRequest,
       HistogramCostObserve ''TRANSACTION'' ''EthereumTransaction'' ''SUCCESS'' 5,
       HistogramGasFeeObserve ''TRANSACTION'' ''EthereumTransaction'' ''SUCCESS'' 21000,
       AddExpense 3 ''0xabc'' exampleRequest,
       HistogramCostObserve ''RECORD'' ''EthereumTransaction'' ''SUCCESS'' 3,
       HistogramGasFeeObserve ''RECORD'' ''EthereumTransaction'' ''SUCCESS'' 0])"
  using captureTransactionMetrics_two_components
          [of "exampleService (exampleRecord 5 3)" False exampleTransaction "exampleRecord 5 3"
              "[MirrorGetTransactionRecordMetrics ''0.0.2@1.5'' ''EthereumTransaction'' ''0.0.2''
                  exampleRequest]"]
  by (simp add: retrieval_cases exampleService_def exampleTransaction_def
        exampleRecord_def spec_emissions_def spec_feeEmission_def
        spec_recordChargeEmission_def addExpenseAndCaptureMetrics_def captureMetrics_def
        EXECUTION_MODE_TRANSACTION_def EXECUTION_MODE_RECORD_def)

text \<open>
  C1, as stated, fails for events published directly: the subscription for query-executed
  events passes its payload to \<^verbatim>\<open>addExpenseAndCaptureMetrics\<close> unchanged, so an event of
  cost 0 reaches the budget enforcer and both histograms.
\<close>

theorem zero_cost_query_reaches_enforcer:
  "onEvent (exampleService (exampleRecord 5 3)) True (EXECUTE_QUERY (exampleQuery 0)) =
     [AddExpense 0 '''' exampleRequest,
      HistogramCostObserve ''QUERY'' ''ContractCallQuery'' ''SUCCESS'' 0,
      HistogramGasFeeObserve ''QUERY'' ''ContractCallQuery'' ''SUCCESS'' 7]"
  by (simp add: addExpenseAndCaptureMetrics_def captureMetrics_def exampleService_def
        exampleQuery_def EXECUTION_MODE_QUERY_def)

text \<open>
  C1, amended. Every emission that \<^verbatim>\<open>captureTransactionMetrics\<close> synthesizes has a cost
  other than 0, and the record retrieval before them touches neither the budget enforcer
  nor a histogram, so on that path no expense and no observation stems from a zero cost. A
  query-executed event published directly is handed to \<^verbatim>\<open>addExpenseAndCaptureMetrics\<close>
  as it is, whatever its cost.
\<close>

theorem zero_cost_filtered_only_when_synthesized:
  "(\<exists>ems. snd (captureTransactionMetrics this d p) =
            snd (getTransactionRecordMetrics this d (transactionId p) (txConstructorName p)
                   (operatorAccountId p) (requestDetails p))
            @ concat (map (addExpenseAndCaptureMetrics this) ems)
          \<and> (\<forall>e \<in> set ems. q_cost e \<noteq> 0))
   \<and> filter isMetering
        (snd (getTransactionRecordMetrics this d (transactionId p) (txConstructorName p)
                (operatorAccountId p) (requestDetails p))) = []
   \<and> onEvent this d (EXECUTE_TRANSACTION p) = snd (captureTransactionMetrics this d p)
   \<and> onEvent this d (EXECUTE_QUERY q) = addExpenseAndCaptureMetrics this q"
proof -
  let ?g = "getTransactionRecordMetrics this d (transactionId p) (txConstructorName p)
              (operatorAccountId p) (requestDetails p)"
  have "\<exists>ems. snd (captureTransactionMetrics this d p) =
            snd ?g @ concat (map (addExpenseAndCaptureMetrics this) ems)
          \<and> (\<forall>e \<in> set ems. q_cost e \<noteq> 0)"
  proof (cases "fst ?g")
    case (Inl raised)
    then have "?g = (Inl raised, snd ?g)" by (metis prod.collapse)
    from capture_raises [OF this] show ?thesis
      by (intro exI [of _ "[]"]) simp
  next
    case (Inr found)
    show ?thesis
    proof (cases found)
      case None
      with Inr have "?g = (Inr None, snd ?g)" by (metis prod.collapse)
      from capture_absent [OF this] show ?thesis
        by (intro exI [of _ "[]"]) simp
    next
      case (Some m)
      with Inr have "?g = (Inr (Some m), snd ?g)" by (metis prod.collapse)
      from capture_present [OF this]
      have "snd (captureTransactionMetrics this d p) =
              snd ?g @ concat (map (addExpenseAndCaptureMetrics this) (spec_emissions p m))"
        by simp
      moreover have "\<forall>e \<in> set (spec_emissions p m). q_cost e \<noteq> 0"
        using spec_emissions_nonzero by blast
      ultimately show ?thesis
        by (intro exI [of _ "spec_emissions p m"] conjI)
    qed
  qed
  then show ?thesis
    using isMetering_retrieval [of this d] by simp
qed

theorem zero_cost_filtered_only_when_synthesized_witness:
  "snd (captureTransactionMetrics (exampleService (exampleRecord 0 0)) False
          exampleTransaction) =
     [MirrorGetTransactionRecordMetrics ''0.0.2@1.5'' ''EthereumTransaction'' ''0.0.2''
        exampleRequest]
   \<and> onEvent (exampleService (exampleRecord 0 0)) False (EXECUTE_QUERY (exampleQuery 4)) =
       [AddExpense 4 '''' exampleRequest,
        HistogramCostObserve ''QUERY'' ''ContractCallQuery'' ''SUCCESS'' 4,
        HistogramGasFeeObserve ''QUERY'' ''ContractCallQuery'' ''SUCCESS'' 7]"
  using zero_cost_filtered_only_when_synthesized
          [of "exampleService (exampleRecord 0 0)" False exampleTransaction "exampleQuery 4"]
  by (simp add: captureTransactionMetrics_def retrieval_cases
        exampleService_def exampleTransaction_def exampleRecord_def exampleQuery_def
        addExpenseAndCaptureMetrics_def captureMetrics_def EXECUTION_MODE_QUERY_def)

section \<open>Properties of the configuration validation\<close>

lemma entry_optional:
  "(case e of None \<Rightarrow> True | Some c \<Rightarrow> \<not> required c)
   \<Longrightarrow> (case e of None \<Rightarrow> False | Some c \<Rightarrow> required c) = False"
  by (cases e) simp_all

lemma get_READ_ONLY:
  assumes "operatorKeysOptional this"
  shows "get this ''READ_ONLY'' = Inr (lookupValue this ''READ_ONLY'')"
proof -
  have "case ENTRIES this ''READ_ONLY'' of None \<Rightarrow> True | Some c \<Rightarrow> \<not> required c"
    using assms by (simp add: operatorKeysOptional_def)
  from entry_optional [OF this] show ?thesis
    by (simp add: get_def Let_def)
qed

lemma get_OPERATOR_ID_MAIN:
  assumes "operatorKeysOptional this"
  shows "get this ''OPERATOR_ID_MAIN'' = Inr (lookupValue this ''OPERATOR_ID_MAIN'')"
proof -
  have "case ENTRIES this ''OPERATOR_ID_MAIN'' of None \<Rightarrow> True | Some c \<Rightarrow> \<not> required c"
    using assms by (simp add: operatorKeysOptional_def)
  from entry_optional [OF this] show ?thesis
    by (simp add: get_def Let_def)
qed

lemma get_OPERATOR_KEY_MAIN:
  assumes "operatorKeysOptional this"
  shows "get this ''OPERATOR_KEY_MAIN'' = Inr (lookupValue this ''OPERATOR_KEY_MAIN'')"
proof -
  have "case ENTRIES this ''OPERATOR_KEY_MAIN'' of None \<Rightarrow> True | Some c \<Rightarrow> \<not> required c"
    using assms by (simp add: operatorKeysOptional_def)
  from entry_optional [OF this] show ?thesis
    by (simp add: get_def Let_def)
qed


lemma forEachRequire_operator:
  assumes "operatorKeysOptional this"
  shows "forEachRequire this [''OPERATOR_ID_MAIN'', ''OPERATOR_KEY_MAIN''] =
     (if \<not> truthy (lookupValue this ''OPERATOR_ID_MAIN'') then
        (Inl (Error ''Configuration error: OPERATOR_ID_MAIN is mandatory for Relay operations in Read-Write mode.''), [])
      else if \<not> truthy (lookupValue this ''OPERATOR_KEY_MAIN'') then
        (Inl (Error ''Configuration error: OPERATOR_KEY_MAIN is mandatory for Relay operations in Read-Write mode.''), [])
      else (Inr (), []))"
  by (simp add: get_OPERATOR_ID_MAIN [OF assms] get_OPERATOR_KEY_MAIN [OF assms])

lemma forEachWarnIfSet_operator:
  assumes "operatorKeysOptional this"
  shows "forEachWarnIfSet this [''OPERATOR_ID_MAIN'', ''OPERATOR_KEY_MAIN''] =
     (Inr (),
      (if truthy (lookupValue this ''OPERATOR_ID_MAIN'') then
         [LoggerWarning ''Relay is in READ_ONLY mode, but OPERATOR_ID_MAIN is set. The Relay will not be able to send transactions.'']
       else [])
      @ (if truthy (lookupValue this ''OPERATOR_KEY_MAIN'') then
         [LoggerWarning ''Relay is in READ_ONLY mode, but OPERATOR_KEY_MAIN is set. The Relay will not be able to send transactions.'']
       else []))"
  by (simp add: get_OPERATOR_ID_MAIN [OF assms] get_OPERATOR_KEY_MAIN [OF assms])

lemma absent_falsy: "looselyUndefined v \<Longrightarrow> \<not> truthy v"
  by (cases v) simp_all

text \<open>
  C9. With the three keys not marked as required in the configuration table, the
  validation throws exactly when the read-only switch is off and the operator id or the
  operator key is missing. Off and missing are the tests of the source on the value that
  \<^verbatim>\<open>get\<close> returns (the environment's value, or else the default): \<^verbatim>\<open>this.get('READ_ONLY')\<close>
  is falsy, and \<^verbatim>\<open>!this.get(varName)\<close> holds, which is the case for a credential that is
  absent (undefined or null) and also for an empty one. In particular every absent
  credential makes the validation throw when the switch is off. When the switch is on,
  the validation never throws: it logs one information line, and a warning for each
  credential that is set.
\<close>

theorem validateReadOnlyMode_aborts_iff:
  assumes "operatorKeysOptional this"
  shows "(\<exists>e. fst (validateReadOnlyMode this) = Inl e) =
           (\<not> truthy (lookupValue this ''READ_ONLY'')
            \<and> (\<not> truthy (lookupValue this ''OPERATOR_ID_MAIN'')
               \<or> \<not> truthy (lookupValue this ''OPERATOR_KEY_MAIN'')))
         \<and> (\<not> truthy (lookupValue this ''READ_ONLY'')
            \<and> (looselyUndefined (lookupValue this ''OPERATOR_ID_MAIN'')
               \<or> looselyUndefined (lookupValue this ''OPERATOR_KEY_MAIN''))
            \<longrightarrow> (\<exists>e. fst (validateReadOnlyMode this) = Inl e))
         \<and> (truthy (lookupValue this ''READ_ONLY'') \<longrightarrow>
              validateReadOnlyMode this =
                (Inr (),
                 LoggerInfo ''Relay is in READ_ONLY mode. It will not send transactions.''
                 # (if truthy (lookupValue this ''OPERATOR_ID_MAIN'') then
                      [LoggerWarning ''Relay is in READ_ONLY mode, but OPERATOR_ID_MAIN is set. The Relay will not be able to send transactions.'']
                    else [])
                 @ (if truthy (lookupValue this ''OPERATOR_KEY_MAIN'') then
                      [LoggerWarning ''Relay is in READ_ONLY mode, but OPERATOR_KEY_MAIN is set. The Relay will not be able to send transactions.'']
                    else [])))"
proof -
  let ?ro = "lookupValue this ''READ_ONLY''"
  let ?id = "lookupValue this ''OPERATOR_ID_MAIN''"
  let ?key = "lookupValue this ''OPERATOR_KEY_MAIN''"
  have ro: "get this ''READ_ONLY'' = Inr ?ro"
    by (rule get_READ_ONLY [OF assms])
  have iff: "(\<exists>e. fst (validateReadOnlyMode this) = Inl e) =
               (\<not> truthy ?ro \<and> (\<not> truthy ?id \<or> \<not> truthy ?key))"
    unfolding validateReadOnlyMode_def Let_def ro
    by (simp add: forEachRequire_operator [OF assms] forEachWarnIfSet_operator [OF assms]
          del: forEachRequire.simps forEachWarnIfSet.simps)
  have absent: "\<not> truthy ?ro \<and> (looselyUndefined ?id \<or> looselyUndefined ?key)
                  \<longrightarrow> (\<exists>e. fst (validateReadOnlyMode this) = Inl e)"
  proof
    assume h: "\<not> truthy ?ro \<and> (looselyUndefined ?id \<or> looselyUndefined ?key)"
    then have "looselyUndefined ?id \<or> looselyUndefined ?key" by (rule conjunct2)
    then have "\<not> truthy ?id \<or> \<not> truthy ?key"
    proof
      assume "looselyUndefined ?id"
      then show ?thesis by (intro disjI1 absent_falsy)
    next
      assume "looselyUndefined ?key"
      then show ?thesis by (intro disjI2 absent_falsy)
    qed
    with h have "\<not> truthy ?ro \<and> (\<not> truthy ?id \<or> \<not> truthy ?key)"
      by (intro conjI) (rule conjunct1)
    then show "\<exists>e. fst (validateReadOnlyMode this) = Inl e"
      by (rule iff [THEN iffD2])
  qed
  have readOnly: "truthy ?ro \<longrightarrow>
              validateReadOnlyMode this =
                (Inr (),
                 LoggerInfo ''Relay is in READ_ONLY mode. It will not send transactions.''
                 # (if truthy ?id then
                      [LoggerWarning ''Relay is in READ_ONLY mode, but OPERATOR_ID_MAIN is set. The Relay will not be able to send transactions.'']
                    else [])
                 @ (if truthy ?key then
                      [LoggerWarning ''Relay is in READ_ONLY mode, but OPERATOR_KEY_MAIN is set. The Relay will not be able to send transactions.'']
                    else []))"
    unfolding validateReadOnlyMode_def Let_def ro
    by (simp add: forEachWarnIfSet_operator [OF assms]
          del: forEachRequire.simps forEachWarnIfSet.simps)
  from iff absent readOnly show ?thesis by (intro conjI)
qed

theorem validateReadOnlyMode_aborts_iff_witness:
  "validateReadOnlyMode (exampleConfig JsUndefined JsUndefined (JsString ''302e'')) =
     (Inl (Error ''Configuration error: OPERATOR_ID_MAIN is mandatory for Relay operations in Read-Write mode.''), [])
   \<and> validateReadOnlyMode (exampleConfig (JsBoolean True) JsUndefined JsUndefined) =
     (Inr (), [LoggerInfo ''Relay is in READ_ONLY mode. It will not send transactions.''])"
  using validateReadOnlyMode_aborts_iff [of "exampleConfig JsUndefined JsUndefined (JsString ''302e'')"]
    validateReadOnlyMode_aborts_iff [of "exampleConfig (JsBoolean True) JsUndefined JsUndefined"]
  by (simp add: validateReadOnlyMode_def get_def lookupValue_def exampleConfig_def
        exampleEntries_def operatorKeysOptional_def)

section \<open>Properties of the construction\<close>

lemma register_after_remove:
  "registerMetric (removeSingleMetric register (metricName metric)) metric =
     Inr (register(metricName metric \<mapsto> metric))"
  by (simp add: registerMetric_def removeSingleMetric_def)

lemma register_taken:
  "register (metricName metric) = Some old \<Longrightarrow> \<exists>e. registerMetric register metric = Inl e"
  by (simp add: registerMetric_def)

lemma initCostMetric_eq:
  "initCostMetric register =
     Inr (costHistogram, register(''rpc_relay_consensusnode_response'' \<mapsto> costHistogram))"
proof -
  have n: "metricName costHistogram = ''rpc_relay_consensusnode_response''"
    by (simp add: costHistogram_def)
  show ?thesis
    using register_after_remove [of register costHistogram]
    unfolding n initCostMetric_def Let_def costHistogram_def [symmetric]
    by simp
qed

lemma initGasMetric_eq:
  "initGasMetric register =
     Inr (gasFeeHistogram, register(''rpc_relay_consensusnode_gasfee'' \<mapsto> gasFeeHistogram))"
proof -
  have n: "metricName gasFeeHistogram = ''rpc_relay_consensusnode_gasfee''"
    by (simp add: gasFeeHistogram_def)
  show ?thesis
    using register_after_remove [of register gasFeeHistogram]
    unfolding n initGasMetric_def Let_def gasFeeHistogram_def [symmetric]
    by simp
qed

lemma initEthCounter_eq:
  "initEthCounter register =
     Inr (executionsCounter, register(''rpc_relay_eth_executions'' \<mapsto> executionsCounter))"
proof -
  have n: "metricName executionsCounter = ''rpc_relay_eth_executions''"
    by (simp add: executionsCounter_def)
  have h: "''Relay '' @ ''rpc_relay_eth_executions'' @ '' function'' =
           ''Relay rpc_relay_eth_executions function''"
    by simp
  show ?thesis
    using register_after_remove [of register executionsCounter]
    unfolding n initEthCounter_def Let_def h executionsCounter_def [symmetric]
    by simp
qed

lemma newMetricService_eq:
  "newMetricService debug sdk mirror register =
     Inr (\<lparr>isDebugEnabled = debug, sdkClient = sdk, mirrorNodeClient = mirror,
           consensusNodeClientHistogramCost = costHistogram,
           consensusNodeClientHistogramGasFee = gasFeeHistogram,
           ethExecutionsCounter = executionsCounter\<rparr>,
          registered register)"
  by (simp add: newMetricService_def initCostMetric_eq initGasMetric_eq initEthCounter_eq
        registered_def)

lemma registered_idem: "registered (registered register) = registered register"
  by (rule ext) (simp add: registered_def)

text \<open>
  C10. Whatever the registry holds, constructing the service succeeds: each initialiser
  deletes the metric registered under its name before it registers the new one, whereas
  registering under a name that is taken throws. Afterwards the registry maps each of the
  three names to the one metric just created and is unchanged elsewhere, and constructing
  a service again on that registry leaves the same registry.
\<close>

theorem newMetricService_reregisters:
  "(\<exists>service. newMetricService debug sdk mirror register = Inr (service, registered register))
   \<and> (\<exists>service. newMetricService debug' sdk' mirror' (registered register)
                   = Inr (service, registered register))
   \<and> registered register ''rpc_relay_consensusnode_response'' = Some costHistogram
   \<and> registered register ''rpc_relay_consensusnode_gasfee'' = Some gasFeeHistogram
   \<and> registered register ''rpc_relay_eth_executions'' = Some executionsCounter
   \<and> (\<forall>n. n \<noteq> ''rpc_relay_consensusnode_response'' \<and> n \<noteq> ''rpc_relay_consensusnode_gasfee''
           \<and> n \<noteq> ''rpc_relay_eth_executions'' \<longrightarrow> registered register n = register n)
   \<and> (\<forall>metric. register (metricName metric) \<noteq> None
           \<longrightarrow> (\<exists>e. registerMetric register metric = Inl e))"
proof -
  have a: "\<exists>service. newMetricService debug sdk mirror register
                       = Inr (service, registered register)"
    by (simp add: newMetricService_eq)
  have "\<exists>service. newMetricService debug' sdk' mirror' (registered register)
                    = Inr (service, registered (registered register))"
    by (simp add: newMetricService_eq)
  then have b: "\<exists>service. newMetricService debug' sdk' mirror' (registered register)
                    = Inr (service, registered register)"
    by (simp only: registered_idem)
  have c: "registered register ''rpc_relay_consensusnode_response'' = Some costHistogram"
    "registered register ''rpc_relay_consensusnode_gasfee'' = Some gasFeeHistogram"
    "registered register ''rpc_relay_eth_executions'' = Some executionsCounter"
    by (simp_all add: registered_def)
  have d: "\<forall>n. n \<noteq> ''rpc_relay_consensusnode_response''
               \<and> n \<noteq> ''rpc_relay_consensusnode_gasfee''
               \<and> n \<noteq> ''rpc_relay_eth_executions'' \<longrightarrow> registered register n = register n"
    by (simp add: registered_def)
  have e: "\<forall>metric. register (metricName metric) \<noteq> None
             \<longrightarrow> (\<exists>e. registerMetric register metric = Inl e)"
    using register_taken by blast
  from a b c d e show ?thesis by blast
qed

theorem newMetricService_reregisters_witness:
  "exampleRegistry ''rpc_relay_consensusnode_response'' \<noteq> None
   \<and> (\<exists>e. registerMetric exampleRegistry costHistogram = Inl e)
   \<and> (\<exists>service. newMetricService True (\<lambda>_ _ _ _. Inl ThrownNull) (\<lambda>_ _ _ _. Inl ThrownOther)
                    exampleRegistry
                 = Inr (service, registered exampleRegistry))
   \<and> registered exampleRegistry ''rpc_relay_consensusnode_response'' = Some costHistogram"
proof -
  note t = newMetricService_reregisters
             [of True "\<lambda>_ _ _ _. Inl ThrownNull" "\<lambda>_ _ _ _. Inl ThrownOther"
                 exampleRegistry]
  have n: "metricName costHistogram = ''rpc_relay_consensusnode_response''"
    by (simp add: costHistogram_def)
  have p: "exampleRegistry ''rpc_relay_consensusnode_response'' \<noteq> None"
    by (simp add: exampleRegistry_def)
  have p': "exampleRegistry (metricName costHistogram) \<noteq> None"
    unfolding n by (rule p)
  have a: "\<exists>service. newMetricService True (\<lambda>_ _ _ _. Inl ThrownNull)
                        (\<lambda>_ _ _ _. Inl ThrownOther) exampleRegistry
                     = Inr (service, registered exampleRegistry)"
    using t by (rule conjunct1)
  have c: "registered exampleRegistry ''rpc_relay_consensusnode_response'' = Some costHistogram"
    by (rule t [THEN conjunct2, THEN conjunct2, THEN conjunct1])
  have e: "\<exists>e. registerMetric exampleRegistry costHistogram = Inl e"
    by (rule t [THEN conjunct2, THEN conjunct2, THEN conjunct2, THEN conjunct2,
                THEN conjunct2, THEN conjunct2, THEN spec, THEN mp, OF p'])
  from p e a c show ?thesis by (intro conjI)
qed

section \<open>Properties of the storage query\<close>

lemma resolve_cases:
  "resolve mirror specifier rd =
     (case blockLookupKey specifier of
        None \<Rightarrow> (Inr Unbounded, [])
      | Some key \<Rightarrow>
          (case getBlock mirror (''blocks/'' @ key) of
             None \<Rightarrow> (Inl RESOURCE_NOT_FOUND, [''blocks/'' @ key])
           | Some block \<Rightarrow> (Inr (Resolved block), [''blocks/'' @ key])))"
  by (simp add: resolve_def)

lemma getStorageAt_failure:
  "fst (resolve mirror b rd) = Inl failure \<Longrightarrow>
   getStorageAt mirror a s b rd = (Inl failure, snd (resolve mirror b rd))"
  by (cases "resolve mirror b rd") (simp add: getStorageAt_def)

lemma getStorageAt_resolved:
  "fst (resolve mirror b rd) = Inr resolved \<Longrightarrow>
   getStorageAt mirror a s b rd =
     (Inr (case getContractState mirror (stateQuery a s resolved) of
             NotFound404 \<Rightarrow> ZERO_HEX_32_BYTE
           | Ok200 [] \<Rightarrow> ZERO_HEX_32_BYTE
           | Ok200 (entry # _) \<Rightarrow> entryValue entry),
      snd (resolve mirror b rd) @ [stateQuery a s resolved])"
  by (cases "resolve mirror b rd")
     (simp add: getStorageAt_def split: StateResponse.splits list.splits)

lemma resolve_failure_iff:
  "(fst (resolve mirror b rd) = Inl failure) =
     (\<exists>key. blockLookupKey b = Some key \<and> getBlock mirror (''blocks/'' @ key) = None)"
  by (cases failure) (simp add: resolve_def split: option.splits)

lemma resolve_null_body:
  "blockLookupKey b = Some key \<Longrightarrow> getBlock mirror (''blocks/'' @ key) = None \<Longrightarrow>
   resolve mirror b rd = (Inl RESOURCE_NOT_FOUND, [''blocks/'' @ key])"
  by (simp add: resolve_def)

lemma getStorageAt_fails_iff:
  "(fst (getStorageAt mirror a s b rd) = Inl failure) = (fst (resolve mirror b rd) = Inl failure)"
proof (cases "fst (resolve mirror b rd)")
  case (Inl f)
  from getStorageAt_failure [OF this] Inl show ?thesis by simp
next
  case (Inr resolved)
  from getStorageAt_resolved [OF this] Inr show ?thesis by simp
qed

text \<open>
  C4. When the block lookup answers with a null or empty body, \<^verbatim>\<open>getStorageAt\<close> fails
  with \<^verbatim>\<open>RESOURCE_NOT_FOUND\<close> and has sent only the block lookup, no state query.
  Conversely, whenever \<^verbatim>\<open>getStorageAt\<close> fails with \<^verbatim>\<open>RESOURCE_NOT_FOUND\<close>, the block
  resolution failed with it: a block lookup was made and came back empty, and no request
  was sent beyond those of the resolution.
\<close>

theorem getStorageAt_resource_not_found:
  "(\<forall>key. blockLookupKey b = Some key \<and> getBlock mirror (''blocks/'' @ key) = None \<longrightarrow>
       getStorageAt mirror a s b rd = (Inl RESOURCE_NOT_FOUND, [''blocks/'' @ key]))
   \<and> (fst (getStorageAt mirror a s b rd) = Inl RESOURCE_NOT_FOUND \<longrightarrow>
        fst (resolve mirror b rd) = Inl RESOURCE_NOT_FOUND
        \<and> snd (getStorageAt mirror a s b rd) = snd (resolve mirror b rd)
        \<and> (\<exists>key. blockLookupKey b = Some key \<and> getBlock mirror (''blocks/'' @ key) = None))"
proof (intro conjI allI impI)
  fix key
  assume k: "blockLookupKey b = Some key \<and> getBlock mirror (''blocks/'' @ key) = None"
  then have r: "resolve mirror b rd = (Inl RESOURCE_NOT_FOUND, [''blocks/'' @ key])"
    by (simp add: resolve_null_body)
  then have "fst (resolve mirror b rd) = Inl RESOURCE_NOT_FOUND" by simp
  from getStorageAt_failure [OF this] r
  show "getStorageAt mirror a s b rd = (Inl RESOURCE_NOT_FOUND, [''blocks/'' @ key])"
    by simp
next
  assume f: "fst (getStorageAt mirror a s b rd) = Inl RESOURCE_NOT_FOUND"
  then show r: "fst (resolve mirror b rd) = Inl RESOURCE_NOT_FOUND"
    by (simp only: getStorageAt_fails_iff)
  from getStorageAt_failure [OF r]
  show "snd (getStorageAt mirror a s b rd) = snd (resolve mirror b rd)" by simp
  from r show "\<exists>key. blockLookupKey b = Some key \<and> getBlock mirror (''blocks/'' @ key) = None"
    by (simp only: resolve_failure_iff)
qed

theorem getStorageAt_resource_not_found_witness:
  "getStorageAt (exampleMirror None (Ok200 [exampleEntry]))
     ''0x000000000000000000000000000000000000055f''
     ''0x0000000000000000000000000000000000000000000000000000000000000101''
     (BlockNumber 3) exampleRequest
   = (Inl RESOURCE_NOT_FOUND, [''blocks/3''])"
proof -
  have k: "blockLookupKey (BlockNumber 3) = Some ''3''
           \<and> getBlock (exampleMirror None (Ok200 [exampleEntry])) (''blocks/'' @ ''3'') = None"
    by (simp add: exampleMirror_def showNat.simps)
  have "getStorageAt (exampleMirror None (Ok200 [exampleEntry]))
     ''0x000000000000000000000000000000000000055f''
     ''0x0000000000000000000000000000000000000000000000000000000000000101''
     (BlockNumber 3) exampleRequest
   = (Inl RESOURCE_NOT_FOUND, [''blocks/'' @ ''3''])"
    by (rule getStorageAt_resource_not_found [THEN conjunct1, THEN spec, THEN mp, OF k])
  then show ?thesis by simp
qed

text \<open>
  C5. For a resolved block, a state query answered with a 404 and a state query answered
  with a 200 and an empty list of entries give the same result: the 32-byte zero value,
  \<^verbatim>\<open>0x\<close> followed by 64 zeros.
\<close>

theorem getStorageAt_zero_value:
  assumes "fst (resolve mirror b rd) = Inr resolved"
    and "getContractState mirror (stateQuery a s resolved) = NotFound404
         \<or> getContractState mirror (stateQuery a s resolved) = Ok200 []"
  shows "fst (getStorageAt mirror a s b rd) = Inr ZERO_HEX_32_BYTE
         \<and> ZERO_HEX_32_BYTE
           = ''0x0000000000000000000000000000000000000000000000000000000000000000''"
proof -
  have z: "ZERO_HEX_32_BYTE
           = ''0x0000000000000000000000000000000000000000000000000000000000000000''"
    unfolding ZERO_HEX_32_BYTE_def by code_simp
  from assms(2) have "fst (getStorageAt mirror a s b rd) = Inr ZERO_HEX_32_BYTE"
  proof
    assume "getContractState mirror (stateQuery a s resolved) = NotFound404"
    with getStorageAt_resolved [OF assms(1), of a s] show ?thesis by simp
  next
    assume "getContractState mirror (stateQuery a s resolved) = Ok200 []"
    with getStorageAt_resolved [OF assms(1), of a s] show ?thesis by simp
  qed
  with z show ?thesis by (simp only: simp_thms)
qed

lemma exampleMirror_resolves:
  "fst (resolve (exampleMirror (Some exampleBlock) reply) (BlockNumber 3) rd)
   = Inr (Resolved exampleBlock)"
  by (simp add: resolve_def exampleMirror_def showNat.simps)

lemma exampleMirror_reply:
  "getContractState (exampleMirror block reply) url = reply"
  by (simp add: exampleMirror_def)

theorem getStorageAt_zero_value_witness:
  "fst (getStorageAt (exampleMirror (Some exampleBlock) NotFound404)
          ''0x000000000000000000000000000000000000055f''
          ''0x0000000000000000000000000000000000000000000000000000000000001101''
          (BlockNumber 3) exampleRequest)
   = Inr ''0x0000000000000000000000000000000000000000000000000000000000000000''
   \<and> fst (getStorageAt (exampleMirror (Some exampleBlock) (Ok200 []))
          ''0x000000000000000000000000000000000000055f''
          ''0x0000000000000000000000000000000000000000000000000000000000001101''
          (BlockNumber 3) exampleRequest)
   = Inr ''0x0000000000000000000000000000000000000000000000000000000000000000''"
proof -
  note a = getStorageAt_zero_value
             [OF exampleMirror_resolves,
              OF disjI1 [OF exampleMirror_reply [of "Some exampleBlock" NotFound404]]]
  note b = getStorageAt_zero_value
             [OF exampleMirror_resolves,
              OF disjI2 [OF exampleMirror_reply [of "Some exampleBlock" "Ok200 []"]]]
  from a [where rd = exampleRequest and a = "''0x000000000000000000000000000000000000055f''" and s = "''0x0000000000000000000000000000000000000000000000000000000000001101''"]
       b [where rd = exampleRequest and a = "''0x000000000000000000000000000000000000055f''" and s = "''0x0000000000000000000000000000000000000000000000000000000000001101''"]
  show ?thesis by (simp only: simp_thms)
qed

text \<open>
  C6. For a resolved block and every slot string, the state query that \<^verbatim>\<open>getStorageAt\<close>
  sends carries the slot exactly as supplied, and when the reply lists at least one entry
  the result is the value of the first entry, unchanged.
\<close>

theorem getStorageAt_slot_pass_through:
  assumes "fst (resolve mirror b rd) = Inr resolved"
  shows "snd (getStorageAt mirror a slot b rd) =
           snd (resolve mirror b rd)
           @ [''contracts/'' @ a @ ''/state?''
              @ (case resolved of
                   Unbounded \<Rightarrow> ''''
                 | Resolved block \<Rightarrow> ''timestamp='' @ timestampTo block @ ''&'')
              @ ''slot='' @ slot @ ''&limit=100&order=desc'']
         \<and> (\<forall>entry rest.
               getContractState mirror (stateQuery a slot resolved) = Ok200 (entry # rest)
               \<longrightarrow> fst (getStorageAt mirror a slot b rd) = Inr (entryValue entry))"
proof (intro conjI allI impI)
  from getStorageAt_resolved [OF assms, of a slot]
  show "snd (getStorageAt mirror a slot b rd) =
           snd (resolve mirror b rd)
           @ [''contracts/'' @ a @ ''/state?''
              @ (case resolved of
                   Unbounded \<Rightarrow> ''''
                 | Resolved block \<Rightarrow> ''timestamp='' @ timestampTo block @ ''&'')
              @ ''slot='' @ slot @ ''&limit=100&order=desc'']"
    by (simp add: stateQuery_def)
next
  fix entry rest
  assume "getContractState mirror (stateQuery a slot resolved) = Ok200 (entry # rest)"
  with getStorageAt_resolved [OF assms, of a slot]
  show "fst (getStorageAt mirror a slot b rd) = Inr (entryValue entry)"
    by simp
qed

lemma exampleEntry_value:
  "entryValue exampleEntry
   = ''0x0000000000000000000000000000000000000000000000000000000000000003''"
  by (simp add: exampleEntry_def)

theorem getStorageAt_slot_pass_through_witness:
  "fst (getStorageAt (exampleMirror (Some exampleBlock) (Ok200 [exampleEntry]))
          ''0x000000000000000000000000000000000000055f'' ''0x101''
          (BlockNumber 3) exampleRequest)
   = Inr ''0x0000000000000000000000000000000000000000000000000000000000000003''
   \<and> fst (getStorageAt (exampleMirror (Some exampleBlock) (Ok200 [exampleEntry]))
          ''0x000000000000000000000000000000000000055f'' ''0x0000101''
          (BlockNumber 3) exampleRequest)
   = Inr ''0x0000000000000000000000000000000000000000000000000000000000000003''
   \<and> fst (getStorageAt (exampleMirror (Some exampleBlock) (Ok200 [exampleEntry]))
          ''0x000000000000000000000000000000000000055f''
          ''0x0000000000000000000000000000000000000000000000000000000000000101''
          (BlockNumber 3) exampleRequest)
   = Inr ''0x0000000000000000000000000000000000000000000000000000000000000003''"
proof -
  from getStorageAt_slot_pass_through
      [where rd = exampleRequest and a = "''0x000000000000000000000000000000000000055f''"
         and slot = "''0x101''",
       OF exampleMirror_resolves, THEN conjunct2, THEN spec, THEN spec, THEN mp,
       OF exampleMirror_reply [of "Some exampleBlock" "Ok200 [exampleEntry]"]]
    getStorageAt_slot_pass_through
      [where rd = exampleRequest and a = "''0x000000000000000000000000000000000000055f''"
         and slot = "''0x0000101''",
       OF exampleMirror_resolves, THEN conjunct2, THEN spec, THEN spec, THEN mp,
       OF exampleMirror_reply [of "Some exampleBlock" "Ok200 [exampleEntry]"]]
    getStorageAt_slot_pass_through
      [where rd = exampleRequest and a = "''0x000000000000000000000000000000000000055f''"
         and slot = "''0x0000000000000000000000000000000000000000000000000000000000000101''",
       OF exampleMirror_resolves, THEN conjunct2, THEN spec, THEN spec, THEN mp,
       OF exampleMirror_reply [of "Some exampleBlock" "Ok200 [exampleEntry]"]]
  show ?thesis by (simp only: exampleEntry_value simp_thms)
qed

end
